theory Spec2Isabelle
  imports Main "HOL-Library.Multiset"
begin

section \<open>C++ types as values\<close>

text \<open>
  The header \<^verbatim>\<open>cpp/include/cuspatial/detail/utility/traits.hpp\<close> computes on types at
  compile time. A type is a value here: a template type parameter \<^verbatim>\<open>T\<close> is a
  \<open>cpp_type\<close>, a parameter pack \<^verbatim>\<open>Ts...\<close> is a \<open>cpp_type list\<close>, a pack expansion
  \<^verbatim>\<open>F<Ts>...\<close> is \<open>map F Ts\<close>, and a \<^verbatim>\<open>constexpr bool\<close> function template is a function to
  \<open>bool\<close>.
\<close>

datatype fundamental =
    Void_t | Nullptr_t
  | Bool_t | Char_t | Signed_char | Unsigned_char | Wchar_t | Char16_t | Char32_t
  | Short_t | Unsigned_short | Int_t | Unsigned_int
  | Long_t | Unsigned_long | Long_long | Unsigned_long_long
  | Float_t | Double_t | Long_double

datatype cv_qualifier = Unqualified | Const | Volatile | Const_volatile

text \<open>
  A class type carries its name, its template arguments and its member typedefs
  (\<^verbatim>\<open>using value_type = T;\<close>), the only members a type-level computation can read.
\<close>

datatype cpp_type =
    Fundamental cv_qualifier fundamental
  | Pointer cv_qualifier cpp_type
  | Lvalue_ref cpp_type
  | Rvalue_ref cpp_type
  | Class cv_qualifier string "cpp_type list" "(string \<times> cpp_type) list"

abbreviation bool_t :: cpp_type where "bool_t \<equiv> Fundamental Unqualified Bool_t"
abbreviation int_t :: cpp_type where "int_t \<equiv> Fundamental Unqualified Int_t"
abbreviation long_t :: cpp_type where "long_t \<equiv> Fundamental Unqualified Long_t"
abbreviation unsigned_int_t :: cpp_type where "unsigned_int_t \<equiv> Fundamental Unqualified Unsigned_int"
abbreviation float_t :: cpp_type where "float_t \<equiv> Fundamental Unqualified Float_t"
abbreviation double_t :: cpp_type where "double_t \<equiv> Fundamental Unqualified Double_t"

section \<open>The facilities of \<^verbatim>\<open><type_traits>\<close> the header uses\<close>

text \<open>
  \<^verbatim>\<open>std::conjunction<B1, ..., Bn>\<close> is \<^verbatim>\<open>std::true_type\<close> for the empty pack, \<^verbatim>\<open>B1\<close> for a
  single argument, and otherwise the first \<^verbatim>\<open>Bi\<close> whose value is false, or the last
  argument when there is none. Every argument in this header is a \<^verbatim>\<open>bool\<close> constant.
\<close>

fun std_conjunction_v :: "bool list \<Rightarrow> bool" where
  "std_conjunction_v [] = True"
| "std_conjunction_v [b] = b"
| "std_conjunction_v (b # bs) = (if b then std_conjunction_v bs else b)"

text \<open>\<^verbatim>\<open>std::is_same<T, U>\<close>: the two names denote the same type, cv-qualifiers included.\<close>

definition std_is_same :: "cpp_type \<Rightarrow> cpp_type \<Rightarrow> bool" where
  "std_is_same T U = (T = U)"

text \<open>
  \<^verbatim>\<open>std::is_floating_point<T>\<close>: \<^verbatim>\<open>float\<close>, \<^verbatim>\<open>double\<close>, \<^verbatim>\<open>long double\<close> and their cv-qualified
  versions.
\<close>

fun std_is_floating_point :: "cpp_type \<Rightarrow> bool" where
  "std_is_floating_point (Fundamental cv Float_t) = True"
| "std_is_floating_point (Fundamental cv Double_t) = True"
| "std_is_floating_point (Fundamental cv Long_double) = True"
| "std_is_floating_point _ = False"

text \<open>
  \<^verbatim>\<open>std::is_integral<T>\<close>: \<^verbatim>\<open>bool\<close>, the character types, the signed and unsigned integer
  types, and their cv-qualified versions.
\<close>

fun std_is_integral :: "cpp_type \<Rightarrow> bool" where
  "std_is_integral (Fundamental cv Void_t) = False"
| "std_is_integral (Fundamental cv Nullptr_t) = False"
| "std_is_integral (Fundamental cv Float_t) = False"
| "std_is_integral (Fundamental cv Double_t) = False"
| "std_is_integral (Fundamental cv Long_double) = False"
| "std_is_integral (Fundamental cv _) = True"
| "std_is_integral _ = False"

section \<open>The predicates of \<^verbatim>\<open>cuspatial::detail\<close>\<close>

text \<open>
  \<^verbatim>\<open>template <typename T, typename... Ts> constexpr bool is_same()
  { return std::conjunction_v<std::is_same<T, Ts>...>; }\<close>
\<close>

definition is_same :: "cpp_type \<Rightarrow> cpp_type list \<Rightarrow> bool" where
  "is_same T Ts = std_conjunction_v (map (\<lambda>X. std_is_same T X) Ts)"

text \<open>
  \<^verbatim>\<open>template <typename U, typename... Ts> constexpr bool is_convertible_to()
  { return std::conjunction_v<std::is_convertible<Ts, U>...>; }\<close>

  Whether \<^verbatim>\<open>std::is_convertible<From, To>\<close> holds depends on the conversion functions and
  constructors the program declares, so the relation is a parameter: \<open>conv From To\<close>.
\<close>

definition is_convertible_to ::
  "(cpp_type \<Rightarrow> cpp_type \<Rightarrow> bool) \<Rightarrow> cpp_type \<Rightarrow> cpp_type list \<Rightarrow> bool" where
  "is_convertible_to conv U Ts = std_conjunction_v (map (\<lambda>X. conv X U) Ts)"

text \<open>
  \<^verbatim>\<open>template <typename... Ts> constexpr bool is_floating_point()
  { return std::conjunction_v<std::is_floating_point<Ts>...>; }\<close>
\<close>

definition is_floating_point :: "cpp_type list \<Rightarrow> bool" where
  "is_floating_point Ts = std_conjunction_v (map (\<lambda>X. std_is_floating_point X) Ts)"

text \<open>
  \<^verbatim>\<open>template <typename... Ts> constexpr bool is_integral()
  { return std::conjunction_v<std::is_integral<Ts>...>; }\<close>
\<close>

definition is_integral :: "cpp_type list \<Rightarrow> bool" where
  "is_integral Ts = std_conjunction_v (map (\<lambda>X. std_is_integral X) Ts)"

text \<open>
  \<^verbatim>\<open>template <typename T, typename... Ts> constexpr bool is_same_floating_point()
  { return std::conjunction_v<std::is_same<T, Ts>...> and
           std::conjunction_v<std::is_floating_point<Ts>...>; }\<close>
\<close>

definition is_same_floating_point :: "cpp_type \<Rightarrow> cpp_type list \<Rightarrow> bool" where
  "is_same_floating_point T Ts =
     (std_conjunction_v (map (\<lambda>X. std_is_same T X) Ts) \<and>
      std_conjunction_v (map (\<lambda>X. std_is_floating_point X) Ts))"

section \<open>The type projections of \<^verbatim>\<open>cuspatial::detail\<close>\<close>

text \<open>
  \<^verbatim>\<open>typename C::name\<close>: the member typedef \<open>name\<close> of the class \<open>C\<close>. A type that is not
  a class, or a class without that member, makes the program ill-formed: \<open>None\<close>.
\<close>

fun member_type :: "cpp_type \<Rightarrow> string \<Rightarrow> cpp_type option" where
  "member_type (Class cv name args members) n = map_of members n"
| "member_type _ n = None"

text \<open>
  \<^verbatim>\<open>template <typename Iterator>
  using iterator_value_type = typename std::iterator_traits<Iterator>::value_type;\<close>

  \<^verbatim>\<open>std::iterator_traits\<close> may be specialised by the program, so the instantiation is a
  parameter: \<open>traits It\<close> is the class \<^verbatim>\<open>std::iterator_traits<It>\<close>.
\<close>

definition iterator_value_type :: "(cpp_type \<Rightarrow> cpp_type) \<Rightarrow> cpp_type \<Rightarrow> cpp_type option" where
  "iterator_value_type traits Iterator = member_type (traits Iterator) ''value_type''"

text \<open>
  \<^verbatim>\<open>template <typename Iterator>
  using iterator_vec_base_type = typename iterator_value_type<Iterator>::value_type;\<close>
\<close>

definition iterator_vec_base_type :: "(cpp_type \<Rightarrow> cpp_type) \<Rightarrow> cpp_type \<Rightarrow> cpp_type option" where
  "iterator_vec_base_type traits Iterator =
     (case iterator_value_type traits Iterator of
        None \<Rightarrow> None
      | Some E \<Rightarrow> member_type E ''value_type'')"

section \<open>Sample instances of the program-dependent parts\<close>

text \<open>
  The primary template of \<^verbatim>\<open>std::iterator_traits\<close> and its pointer specialisations
  (C++17, the language level of the library): a type with the five member typedefs hands
  them on, a type without one of them gets no members, and for an object pointer \<^verbatim>\<open>T*\<close> or
  \<^verbatim>\<open>const T*\<close> the value type is \<^verbatim>\<open>T\<close>.
\<close>

definition iterator_member_names :: "string list" where
  "iterator_member_names =
     [''difference_type'', ''value_type'', ''pointer'', ''reference'', ''iterator_category'']"

fun remove_const_qualifier :: "cv_qualifier \<Rightarrow> cv_qualifier" where
  "remove_const_qualifier Const = Unqualified"
| "remove_const_qualifier Const_volatile = Volatile"
| "remove_const_qualifier cv = cv"

fun remove_const :: "cpp_type \<Rightarrow> cpp_type" where
  "remove_const (Fundamental cv f) = Fundamental (remove_const_qualifier cv) f"
| "remove_const (Pointer cv T) = Pointer (remove_const_qualifier cv) T"
| "remove_const (Class cv name args members) =
     Class (remove_const_qualifier cv) name args members"
| "remove_const (Lvalue_ref T) = Lvalue_ref T"
| "remove_const (Rvalue_ref T) = Rvalue_ref T"

fun is_object :: "cpp_type \<Rightarrow> bool" where
  "is_object (Fundamental cv f) = (f \<noteq> Void_t)"
| "is_object (Pointer cv T) = True"
| "is_object (Class cv name args members) = True"
| "is_object (Lvalue_ref T) = False"
| "is_object (Rvalue_ref T) = False"

abbreviation random_access_iterator_tag :: cpp_type where
  "random_access_iterator_tag \<equiv> Class Unqualified ''std::random_access_iterator_tag'' [] []"

fun iterator_traits_members :: "cpp_type \<Rightarrow> (string \<times> cpp_type) list" where
  "iterator_traits_members (Pointer cv T) =
     (if cv = Unqualified \<and> is_object T
      then [(''difference_type'', long_t),
            (''value_type'', remove_const T),
            (''pointer'', Pointer Unqualified T),
            (''reference'', Lvalue_ref T),
            (''iterator_category'', random_access_iterator_tag)]
      else [])"
| "iterator_traits_members (Class cv name args members) =
     (if list_all (\<lambda>n. map_of members n \<noteq> None) iterator_member_names
      then filter (\<lambda>m. fst m \<in> set iterator_member_names) members
      else [])"
| "iterator_traits_members (Fundamental cv f) = []"
| "iterator_traits_members (Lvalue_ref T) = []"
| "iterator_traits_members (Rvalue_ref T) = []"

definition std_iterator_traits :: "cpp_type \<Rightarrow> cpp_type" where
  "std_iterator_traits It =
     Class Unqualified ''std::iterator_traits'' [It] (iterator_traits_members It)"

text \<open>
  Modelled from the spec: the point-like element type (\<^verbatim>\<open>cuspatial::vec_2d\<close> is not part of
  this header), a class over its scalar type \<open>T\<close> that declares \<open>T\<close> as its inner
  component type by the same member typedef.
\<close>

definition vec_2d :: "cpp_type \<Rightarrow> cpp_type" where
  "vec_2d T = Class Unqualified ''cuspatial::vec_2d'' [T] [(''value_type'', T)]"

text \<open>A class iterator over elements of type \<open>E\<close> with the five member typedefs.\<close>

definition element_iterator :: "cpp_type \<Rightarrow> cpp_type" where
  "element_iterator E = Class Unqualified ''element_iterator'' [E]
     [(''iterator_category'', random_access_iterator_tag),
      (''value_type'', E),
      (''difference_type'', long_t),
      (''pointer'', Pointer Unqualified E),
      (''reference'', Lvalue_ref E)]"

text \<open>
  The standard conversions between arithmetic types (\<^verbatim>\<open>std::is_arithmetic\<close>: integral or
  floating point): every arithmetic type converts implicitly to every other one. This is
  the conversion relation of a program whose other types declare no conversions to or
  from arithmetic types.
\<close>

definition std_is_arithmetic :: "cpp_type \<Rightarrow> bool" where
  "std_is_arithmetic T = (std_is_integral T \<or> std_is_floating_point T)"

definition arithmetic_conversions :: "cpp_type \<Rightarrow> cpp_type \<Rightarrow> bool" where
  "arithmetic_conversions From To = (std_is_arithmetic From \<and> std_is_arithmetic To)"

section \<open>The conjunction over a pack\<close>

lemma std_conjunction_v_iff: "std_conjunction_v bs \<longleftrightarrow> (\<forall>b \<in> set bs. b)"
  by (induction bs rule: std_conjunction_v.induct) auto

lemma std_conjunction_v_map: "std_conjunction_v (map P Ts) \<longleftrightarrow> (\<forall>X \<in> set Ts. P X)"
  by (simp add: std_conjunction_v_iff)

lemma is_same_set: "is_same T Ts \<longleftrightarrow> (\<forall>X \<in> set Ts. X = T)"
  by (auto simp: is_same_def std_is_same_def std_conjunction_v_map)

lemma is_convertible_to_set: "is_convertible_to conv U Ts \<longleftrightarrow> (\<forall>X \<in> set Ts. conv X U)"
  by (simp add: is_convertible_to_def std_conjunction_v_map)

lemma is_floating_point_set: "is_floating_point Ts \<longleftrightarrow> (\<forall>X \<in> set Ts. std_is_floating_point X)"
  by (simp add: is_floating_point_def std_conjunction_v_map)

lemma is_integral_set: "is_integral Ts \<longleftrightarrow> (\<forall>X \<in> set Ts. std_is_integral X)"
  by (simp add: is_integral_def std_conjunction_v_map)

lemma is_same_floating_point_set:
  "is_same_floating_point T Ts \<longleftrightarrow> (\<forall>X \<in> set Ts. X = T \<and> std_is_floating_point X)"
  by (auto simp: is_same_floating_point_def std_is_same_def std_conjunction_v_map)

section \<open>The standard classification of scalar types\<close>

lemma std_floating_point_not_integral: "std_is_floating_point X \<Longrightarrow> \<not> std_is_integral X"
  by (cases X rule: std_is_floating_point.cases) simp_all

lemma is_same_floating_point_nonempty:
  "Ts \<noteq> [] \<Longrightarrow> is_same_floating_point T Ts \<Longrightarrow> std_is_floating_point T"
  by (cases Ts) (auto simp: is_same_floating_point_set)

section \<open>The standard iterator traits of a class iterator\<close>

lemma member_type_iterator_traits_class:
  assumes "list_all (\<lambda>n. map_of members n \<noteq> None) iterator_member_names"
  shows "member_type (std_iterator_traits (Class cv name args members)) ''value_type'' =
           map_of members ''value_type''"
proof -
  obtain E where E: "map_of members ''value_type'' = Some E"
    using assms by (auto simp: iterator_member_names_def)
  have "map_of (filter (\<lambda>(k, v). k \<in> set iterator_member_names) members) ''value_type'' = Some E"
    by (rule map_of_filter_in [OF E]) (simp add: iterator_member_names_def)
  moreover have "(\<lambda>m. fst m \<in> set iterator_member_names) = (\<lambda>(k, v :: cpp_type). k \<in> set iterator_member_names)"
    by auto
  ultimately show ?thesis
    using assms E by (simp add: std_iterator_traits_def)
qed

section \<open>The predicates\<close>

text \<open>
  Claim C4. \<open>is_same T Ts\<close> is true exactly when every candidate in \<open>Ts\<close> is the type \<open>T\<close>
  itself (identity of types, no conversion). For \<open>T\<close> repeated \<open>n \<ge> 1\<close> times it is true
  against the reference \<open>T\<close> and false against any other reference \<open>T'\<close>; for the empty
  candidate list it is true for any reference.
\<close>

theorem is_same_iff:
  "(is_same T Ts \<longleftrightarrow> (\<forall>X \<in> set Ts. X = T)) \<and>
   (0 < n \<longrightarrow> is_same T (replicate n T)) \<and>
   (0 < n \<and> T' \<noteq> T \<longrightarrow> \<not> is_same T' (replicate n T)) \<and>
   is_same T' []"
  by (auto simp: is_same_set)

theorem is_same_iff_witness:
  "is_same float_t [float_t, float_t] \<and>
   \<not> is_same float_t [float_t, double_t] \<and>
   \<not> is_same double_t [float_t, float_t] \<and>
   is_same double_t []"
proof -
  have a: "\<forall>X \<in> set [float_t, float_t]. X = float_t" by simp
  have b: "0 < Suc (Suc 0) \<and> double_t \<noteq> float_t" by simp
  have c: "\<not> (\<forall>X \<in> set [float_t, double_t]. X = float_t)" by simp
  show ?thesis
    using a b c
      is_same_iff [of float_t "[float_t, float_t]" "Suc (Suc 0)" double_t]
      is_same_iff [of float_t "[float_t, double_t]" "Suc 0" double_t]
    by simp
qed

text \<open>
  Claim C5. \<open>is_convertible_to conv U Ts\<close> is true exactly when every candidate in \<open>Ts\<close>
  converts implicitly to the target \<open>U\<close>, whatever the implicit conversions \<open>conv\<close> of the
  program are. The empty candidate list gives true; a list with a candidate that has no
  implicit conversion to \<open>U\<close> gives false.
\<close>

theorem is_convertible_to_iff:
  "(is_convertible_to conv U Ts \<longleftrightarrow> (\<forall>X \<in> set Ts. conv X U)) \<and>
   is_convertible_to conv U [] \<and>
   (X \<in> set Ts \<and> \<not> conv X U \<longrightarrow> \<not> is_convertible_to conv U Ts)"
  by (auto simp: is_convertible_to_set)

theorem is_convertible_to_iff_witness:
  "is_convertible_to arithmetic_conversions double_t [int_t, float_t, unsigned_int_t] \<and>
   is_convertible_to arithmetic_conversions double_t [] \<and>
   \<not> is_convertible_to arithmetic_conversions double_t [int_t, vec_2d double_t]"
proof -
  have a: "\<forall>X \<in> set [int_t, float_t, unsigned_int_t]. arithmetic_conversions X double_t"
    by (simp add: arithmetic_conversions_def std_is_arithmetic_def)
  have b: "vec_2d double_t \<in> set [int_t, vec_2d double_t] \<and>
           \<not> arithmetic_conversions (vec_2d double_t) double_t"
    by (simp add: arithmetic_conversions_def std_is_arithmetic_def vec_2d_def)
  show ?thesis
    using a b
      is_convertible_to_iff [of arithmetic_conversions double_t "[int_t, float_t, unsigned_int_t]"
        "vec_2d double_t"]
      is_convertible_to_iff [of arithmetic_conversions double_t "[int_t, vec_2d double_t]"
        "vec_2d double_t"]
    by blast
qed

text \<open>
  Claim C6. \<open>is_floating_point Ts\<close> is true exactly when every candidate in \<open>Ts\<close> is a
  floating-point type. The empty list gives true; a list that contains an integral type
  gives false.
\<close>

theorem is_floating_point_iff:
  "(is_floating_point Ts \<longleftrightarrow> (\<forall>X \<in> set Ts. std_is_floating_point X)) \<and>
   is_floating_point [] \<and>
   (X \<in> set Ts \<and> std_is_integral X \<longrightarrow> \<not> is_floating_point Ts)"
  using std_floating_point_not_integral by (auto simp: is_floating_point_set)

theorem is_floating_point_iff_witness:
  "is_floating_point [float_t, double_t] \<and>
   is_floating_point [] \<and>
   \<not> is_floating_point [float_t, int_t]"
proof -
  have a: "\<forall>X \<in> set [float_t, double_t]. std_is_floating_point X" by simp
  have b: "int_t \<in> set [float_t, int_t] \<and> std_is_integral int_t" by simp
  show ?thesis
    using a b
      is_floating_point_iff [of "[float_t, double_t]" int_t]
      is_floating_point_iff [of "[float_t, int_t]" int_t]
    by blast
qed

text \<open>
  Claim C7. \<open>is_integral Ts\<close> is true exactly when every candidate in \<open>Ts\<close> is an integral
  type; in particular it is true over any two integral types \<open>i1\<close>, \<open>i2\<close>.
\<close>

theorem is_integral_iff:
  "(is_integral Ts \<longleftrightarrow> (\<forall>X \<in> set Ts. std_is_integral X)) \<and>
   (std_is_integral i1 \<and> std_is_integral i2 \<longrightarrow> is_integral [i1, i2])"
  by (auto simp: is_integral_set)

theorem is_integral_iff_witness:
  "is_integral [int_t, unsigned_int_t] \<and> \<not> is_integral [int_t, float_t]"
proof -
  have a: "std_is_integral int_t \<and> std_is_integral unsigned_int_t" by simp
  have b: "\<not> (\<forall>X \<in> set [int_t, float_t]. std_is_integral X)" by simp
  show ?thesis
    using a b
      is_integral_iff [of "[int_t, float_t]" int_t unsigned_int_t]
    by blast
qed

text \<open>
  Claim C1. \<open>is_same_floating_point T Ts\<close> is true exactly when both \<open>is_same T Ts\<close> and
  \<open>is_floating_point Ts\<close> are true. For two floating-point types of differing width
  (whatever width each type is given) \<open>is_floating_point\<close> holds of the pair, but
  \<open>is_same_floating_point\<close> is false with either of them as reference; and for an integral
  type repeated \<open>n \<ge> 1\<close> times \<open>is_same\<close> holds against that type but
  \<open>is_same_floating_point\<close> is false.
\<close>

theorem is_same_floating_point_iff:
  "(is_same_floating_point T Ts \<longleftrightarrow> is_same T Ts \<and> is_floating_point Ts) \<and>
   (std_is_floating_point f1 \<and> std_is_floating_point f2 \<and>
    (width :: cpp_type \<Rightarrow> nat) f1 \<noteq> width f2 \<longrightarrow>
      is_floating_point [f1, f2] \<and>
      \<not> is_same_floating_point f1 [f1, f2] \<and> \<not> is_same_floating_point f2 [f1, f2]) \<and>
   (std_is_integral i \<and> 0 < n \<longrightarrow>
      is_same i (replicate n i) \<and> \<not> is_same_floating_point i (replicate n i))"
proof (intro conjI impI)
  show "is_same_floating_point T Ts \<longleftrightarrow> is_same T Ts \<and> is_floating_point Ts"
    by (simp add: is_same_floating_point_def is_same_def is_floating_point_def)
next
  assume h: "std_is_floating_point f1 \<and> std_is_floating_point f2 \<and> width f1 \<noteq> width f2"
  then have ne: "f1 \<noteq> f2" by auto
  from h show "is_floating_point [f1, f2]" by (simp add: is_floating_point_set)
  from ne show "\<not> is_same_floating_point f1 [f1, f2]" by (auto simp: is_same_floating_point_set)
  from ne show "\<not> is_same_floating_point f2 [f1, f2]" by (auto simp: is_same_floating_point_set)
next
  assume h: "std_is_integral i \<and> 0 < n"
  show "is_same i (replicate n i)" by (simp add: is_same_set)
  from h have "i \<in> set (replicate n i)" by simp
  moreover from h have "\<not> std_is_floating_point i"
    using std_floating_point_not_integral by blast
  ultimately show "\<not> is_same_floating_point i (replicate n i)"
    unfolding is_same_floating_point_set by blast
qed

theorem is_same_floating_point_iff_witness:
  "is_same_floating_point float_t [float_t, float_t] \<and>
   is_floating_point [float_t, double_t] \<and>
   \<not> is_same_floating_point float_t [float_t, double_t] \<and>
   \<not> is_same_floating_point double_t [float_t, double_t] \<and>
   is_same int_t [int_t, int_t] \<and>
   \<not> is_same_floating_point int_t [int_t, int_t]"
proof -
  have a: "is_same float_t [float_t, float_t] \<and> is_floating_point [float_t, float_t]"
    by (simp add: is_same_def is_floating_point_def std_is_same_def)
  have b: "std_is_floating_point float_t \<and> std_is_floating_point double_t \<and>
           (\<lambda>X. if X = float_t then 32 else (64::nat)) float_t \<noteq>
           (\<lambda>X. if X = float_t then 32 else 64) double_t"
    by simp
  have c: "std_is_integral int_t \<and> 0 < Suc (Suc 0)" by simp
  show ?thesis
    using a b c
      is_same_floating_point_iff [of float_t "[float_t, float_t]" float_t double_t
         "\<lambda>X. if X = float_t then 32 else 64" int_t "Suc (Suc 0)"]
    by simp
qed

text \<open>
  Claim C2, at the empty candidate list. The reference type of \<open>is_same_floating_point\<close> is
  only compared with the candidates: with no candidate the result is true although the
  reference \<^verbatim>\<open>int\<close> is not a floating-point type. (With at least one candidate the
  reference is a floating-point type: \<open>is_same_floating_point_nonempty\<close>.)
\<close>

theorem is_same_floating_point_reference_unchecked:
  "is_same_floating_point int_t [] \<and> \<not> std_is_floating_point int_t"
  by (simp add: is_same_floating_point_def)

text \<open>
  Claim C10. For every reference type \<open>T\<close>, floating-point or not,
  \<open>is_same_floating_point T []\<close> is true: both conjunctions are over the empty pack, and the
  reference type is not inspected.
\<close>

theorem is_same_floating_point_empty:
  "is_same T [] \<and> is_floating_point [] \<and> is_same_floating_point T []"
  by (simp add: is_same_def is_floating_point_def is_same_floating_point_def)

theorem is_same_floating_point_empty_witness:
  "std_is_integral int_t \<and> \<not> std_is_floating_point int_t \<and> is_same_floating_point int_t []"
  using is_same_floating_point_empty [of int_t] by simp

text \<open>
  Claim C8. Each of the five predicates gives the same result on a candidate list and on
  any permutation of it (two lists with the same multiset of types), for the same
  reference or target type.
\<close>

theorem predicates_permutation_invariant:
  "mset Ts = mset Ts' \<Longrightarrow>
     is_same T Ts = is_same T Ts' \<and>
     is_convertible_to conv U Ts = is_convertible_to conv U Ts' \<and>
     is_floating_point Ts = is_floating_point Ts' \<and>
     is_integral Ts = is_integral Ts' \<and>
     is_same_floating_point T Ts = is_same_floating_point T Ts'"
proof -
  assume "mset Ts = mset Ts'"
  then have "set Ts = set Ts'" by (rule mset_eq_setD)
  then show ?thesis
    by (simp add: is_same_set is_convertible_to_set is_floating_point_set is_integral_set
        is_same_floating_point_set)
qed

theorem predicates_permutation_invariant_witness:
  "mset [float_t, double_t, int_t] = mset [int_t, float_t, double_t] \<and>
   is_same float_t [float_t, double_t, int_t] = is_same float_t [int_t, float_t, double_t] \<and>
   is_convertible_to arithmetic_conversions double_t [float_t, double_t, int_t] =
     is_convertible_to arithmetic_conversions double_t [int_t, float_t, double_t] \<and>
   is_floating_point [float_t, double_t, int_t] = is_floating_point [int_t, float_t, double_t] \<and>
   is_integral [float_t, double_t, int_t] = is_integral [int_t, float_t, double_t] \<and>
   is_same_floating_point float_t [float_t, double_t, int_t] =
     is_same_floating_point float_t [int_t, float_t, double_t]"
proof -
  have h: "mset [float_t, double_t, int_t] = mset [int_t, float_t, double_t]" by simp
  show ?thesis
    using h predicates_permutation_invariant [OF h, of float_t arithmetic_conversions double_t]
    by blast
qed

text \<open>
  Claim C9. No type \<open>X\<close> makes both \<open>is_floating_point\<close> and \<open>is_integral\<close> true over the
  one-element list of \<open>X\<close>.
\<close>

theorem floating_point_integral_exclusive:
  "\<not> (is_floating_point [X] \<and> is_integral [X])"
  using std_floating_point_not_integral [of X]
  by (auto simp: is_floating_point_set is_integral_set)

theorem floating_point_integral_exclusive_witness:
  "\<not> (is_floating_point [float_t] \<and> is_integral [float_t]) \<and>
   \<not> (is_floating_point [int_t] \<and> is_integral [int_t])"
  using floating_point_integral_exclusive [of float_t] floating_point_integral_exclusive [of int_t]
  by blast

section \<open>The projections\<close>

text \<open>
  Claim C3. When the iterator traits of \<open>It\<close> declare the element type \<open>E\<close>,
  \<open>iterator_value_type\<close> yields exactly \<open>E\<close>; when \<open>E\<close> in turn declares the inner component
  type \<open>C\<close>, \<open>iterator_vec_base_type\<close> yields exactly \<open>C\<close>. Under the standard traits a class
  iterator with the five member typedefs yields the \<^verbatim>\<open>value_type\<close> it declares. The
  two-level projection is the member lookup applied to the result of the element-type
  projection, and is ill-formed when either level is.
\<close>

theorem iterator_projections:
  "(member_type (traits It) ''value_type'' = Some E \<longrightarrow>
      iterator_value_type traits It = Some E) \<and>
   (member_type (traits It) ''value_type'' = Some E \<and> member_type E ''value_type'' = Some C \<longrightarrow>
      iterator_vec_base_type traits It = Some C) \<and>
   (list_all (\<lambda>n. map_of members n \<noteq> None) iterator_member_names \<and>
    map_of members ''value_type'' = Some E \<longrightarrow>
      iterator_value_type std_iterator_traits (Class cv name args members) = Some E) \<and>
   iterator_vec_base_type traits It =
     Option.bind (iterator_value_type traits It) (\<lambda>E. member_type E ''value_type'')"
proof (intro conjI impI)
  show "iterator_value_type traits It = Some E"
    if "member_type (traits It) ''value_type'' = Some E"
    using that by (simp add: iterator_value_type_def)
  show "iterator_vec_base_type traits It = Some C"
    if "member_type (traits It) ''value_type'' = Some E \<and> member_type E ''value_type'' = Some C"
    using that by (simp add: iterator_vec_base_type_def iterator_value_type_def)
  show "iterator_value_type std_iterator_traits (Class cv name args members) = Some E"
    if "list_all (\<lambda>n. map_of members n \<noteq> None) iterator_member_names \<and>
        map_of members ''value_type'' = Some E"
    using that member_type_iterator_traits_class [of members cv name args]
    by (simp add: iterator_value_type_def)
  show "iterator_vec_base_type traits It =
          Option.bind (iterator_value_type traits It) (\<lambda>E. member_type E ''value_type'')"
    by (simp add: iterator_vec_base_type_def split: option.split)
qed

theorem iterator_projections_witness:
  "iterator_value_type std_iterator_traits (element_iterator (vec_2d double_t)) =
     Some (vec_2d double_t) \<and>
   iterator_vec_base_type std_iterator_traits (element_iterator (vec_2d double_t)) =
     Some double_t"
proof -
  let ?ms = "[(''iterator_category'', random_access_iterator_tag),
      (''value_type'', vec_2d double_t),
      (''difference_type'', long_t),
      (''pointer'', Pointer Unqualified (vec_2d double_t)),
      (''reference'', Lvalue_ref (vec_2d double_t))]"
  have it: "element_iterator (vec_2d double_t) = Class Unqualified ''element_iterator'' [vec_2d double_t] ?ms"
    by (simp add: element_iterator_def)
  have a: "list_all (\<lambda>n. map_of ?ms n \<noteq> None) iterator_member_names \<and>
           map_of ?ms ''value_type'' = Some (vec_2d double_t)"
    by (simp add: iterator_member_names_def)
  have b: "member_type (vec_2d double_t) ''value_type'' = Some double_t"
    by (simp add: vec_2d_def)
  have c: "member_type (std_iterator_traits (element_iterator (vec_2d double_t))) ''value_type'' =
             Some (vec_2d double_t)"
    by (simp add: std_iterator_traits_def element_iterator_def iterator_member_names_def)
  show ?thesis
    using a b c it
      iterator_projections [of std_iterator_traits "element_iterator (vec_2d double_t)"
        "vec_2d double_t" double_t ?ms Unqualified "''element_iterator''" "[vec_2d double_t]"]
    by simp
qed

end
